theory Spec2Isabelle
  imports Main "HOL-Library.Word"
begin

section \<open>Status codes\<close>

text \<open>
  \<^verbatim>\<open>NTSTATUS\<close> is a signed 32-bit value; \<^verbatim>\<open>NT_SUCCESS(s)\<close> is the macro
  \<^verbatim>\<open>((NTSTATUS)(s) >= 0)\<close>. The named codes are the platform's constants
  (\<^verbatim>\<open>ntstatus.h\<close>); device.c only names them.
\<close>

type_synonym ntstatus = "32 word"

definition NT_SUCCESS :: "ntstatus \<Rightarrow> bool" where
  "NT_SUCCESS status = (0 \<le> sint status)"

definition STATUS_SUCCESS :: ntstatus where
  "STATUS_SUCCESS = 0"

definition STATUS_UNSUCCESSFUL :: ntstatus where
  "STATUS_UNSUCCESSFUL = 0xC0000001"

definition STATUS_NO_MORE_ENTRIES :: ntstatus where
  "STATUS_NO_MORE_ENTRIES = 0x8000001A"

definition STATUS_BUFFER_TOO_SMALL :: ntstatus where
  "STATUS_BUFFER_TOO_SMALL = 0xC0000023"

definition STATUS_INSUFFICIENT_RESOURCES :: ntstatus where
  "STATUS_INSUFFICIENT_RESOURCES = 0xC000009A"

section \<open>Data model\<close>

text \<open>
  A \<^verbatim>\<open>HID_INPUT_REPORT\<close> is a fixed-size struct declared outside device.c, which only
  copies whole reports; it is kept as the struct's bytes.
\<close>

type_synonym hid_input_report = "8 word list"

text \<open>
  A \<^verbatim>\<open>WDFREQUEST\<close> as far as device.c touches it: the length of the output buffer the
  client supplied, what has been copied into that buffer (\<open>None\<close>: nothing written), and
  the byte count set by \<^verbatim>\<open>WdfRequestSetInformation\<close> (initially 0).
\<close>

record wdf_request =
  RequestId :: nat
  OutputBufferLength :: nat
  OutputBuffer :: "hid_input_report option"
  Information :: nat

text \<open>
  \<^verbatim>\<open>SPB_CONTEXT\<close>: device.c writes the two halves of \<^verbatim>\<open>I2cResHubId\<close>
  (a \<^verbatim>\<open>LARGE_INTEGER\<close>); the rest of the struct belongs to the transport.
\<close>

record spb_context =
  I2cResHubId_LowPart :: "32 word"
  I2cResHubId_HighPart :: "32 word"

text \<open>
  \<^verbatim>\<open>CM_PARTIAL_RESOURCE_DESCRIPTOR\<close>: the \<^verbatim>\<open>Type\<close> tag and the
  \<^verbatim>\<open>u.Connection\<close> view of the union.
\<close>

record cm_partial_resource_descriptor =
  ResType :: "8 word"
  Connection_Class :: "8 word"
  Connection_Type :: "8 word"
  Connection_IdLowPart :: "32 word"
  Connection_IdHighPart :: "32 word"

definition CmResourceTypeConnection :: "8 word" where
  "CmResourceTypeConnection = 132"

definition CM_RESOURCE_CONNECTION_CLASS_SERIAL :: "8 word" where
  "CM_RESOURCE_CONNECTION_CLASS_SERIAL = 2"

definition CM_RESOURCE_CONNECTION_TYPE_SERIAL_I2C :: "8 word" where
  "CM_RESOURCE_CONNECTION_TYPE_SERIAL_I2C = 1"

text \<open>
  Invocations of the collaborators, in program order. A pop of the request queue carries
  the status it returned.
\<close>

datatype call =
    Call_TchServiceInterrupts
  | Call_WdfIoQueueRetrieveNextRequest ntstatus
  | Call_TchWakeDevice
  | Call_TchCompleteIdleIrp
  | Call_TchStandbyDevice
  | Call_SpbTargetInitialize
  | Call_TchAllocateContext
  | Call_TchRegistryGetControllerSettings
  | Call_TchStartDevice
  | Call_TchStopDevice
  | Call_TchFreeContext
  | Call_SpbTargetDeinitialize

text \<open>
  \<^verbatim>\<open>DEVICE_EXTENSION\<close>, the fields device.c reads or writes, together with what the
  surroundings observe: the requests handed to \<^verbatim>\<open>WdfRequestComplete\<close> with their
  completion status, oldest first, and the collaborator calls made so far.
\<close>

record device_extension =
  DiagnosticMode :: bool
  TouchContext :: nat
  I2CContext :: spb_context
  InputMode :: "32 word"
  PingPongQueue :: "wdf_request list"
  ServiceInterruptsAfterD0Entry :: bool
  Completed :: "(wdf_request \<times> ntstatus) list"
  Calls :: "call list"

text \<open>
  The collaborators that live outside device.c are parameters of the model: each returns
  the status (and output values) of one invocation, given the arguments device.c passes.
  \<^verbatim>\<open>sizeof(HID_INPUT_REPORT)\<close> comes from a declaration outside device.c and is a
  parameter as well. The collaborators are taken not to write the fields of the device
  extension that device.c itself maintains.
\<close>

record externals =
  SizeofHidInputReport :: nat
  TchServiceInterrupts :: "nat \<Rightarrow> spb_context \<Rightarrow> 32 word \<Rightarrow> ntstatus \<times> hid_input_report list"
  WdfRequestRetrieveOutputBuffer :: "wdf_request \<Rightarrow> nat \<Rightarrow> ntstatus \<times> nat"
  TchWakeDevice :: "nat \<Rightarrow> spb_context \<Rightarrow> ntstatus"
  TchStandbyDevice :: "nat \<Rightarrow> spb_context \<Rightarrow> ntstatus"
  SpbTargetInitialize :: "spb_context \<Rightarrow> ntstatus"
  TchAllocateContext :: "nat \<Rightarrow> ntstatus \<times> nat"
  TchRegistryGetControllerSettings :: "nat \<Rightarrow> ntstatus"
  TchStartDevice :: "nat \<Rightarrow> spb_context \<Rightarrow> ntstatus"
  TchStopDevice :: "nat \<Rightarrow> spb_context \<Rightarrow> ntstatus"
  TchFreeContext :: "nat \<Rightarrow> ntstatus"

section \<open>Interrupt servicing\<close>

text \<open>
  Modelled from the spec: \<^verbatim>\<open>WdfIoQueueRetrieveNextRequest\<close> is the framework's pop of
  the pending-request queue, first in first out; with nothing queued it fails with
  \<^verbatim>\<open>STATUS_NO_MORE_ENTRIES\<close> and leaves the queue as it is.
\<close>

fun WdfIoQueueRetrieveNextRequest ::
  "wdf_request list \<Rightarrow> ntstatus \<times> wdf_request option \<times> wdf_request list" where
  "WdfIoQueueRetrieveNextRequest [] = (STATUS_NO_MORE_ENTRIES, None, [])"
| "WdfIoQueueRetrieveNextRequest (request # rest) = (STATUS_SUCCESS, Some request, rest)"

text \<open>
  The body of the \<^verbatim>\<open>for\<close> loop of \<^verbatim>\<open>OnInterruptIsr\<close> from the output-buffer
  validation to \<^verbatim>\<open>WdfRequestComplete\<close>, for the popped request and report
  \<^verbatim>\<open>hidReportsFromDriver[i]\<close>: the request as it is when completed, and the status
  it is completed with.
\<close>

definition complete_request ::
  "externals \<Rightarrow> wdf_request \<Rightarrow> hid_input_report \<Rightarrow> wdf_request \<times> ntstatus" where
  "complete_request ext request report =
     (case WdfRequestRetrieveOutputBuffer ext request (SizeofHidInputReport ext) of
        (status, hidReportRequestBufferLength) \<Rightarrow>
          if \<not> NT_SUCCESS status then (request, status)
          else if hidReportRequestBufferLength < SizeofHidInputReport ext
            then (request, STATUS_BUFFER_TOO_SMALL)
          else (request\<lparr>OutputBuffer := Some report,
                        Information := SizeofHidInputReport ext\<rparr>, status))"

text \<open>
  The \<^verbatim>\<open>for\<close> loop over the reports: one pop per report; a failed pop skips the
  report (\<^verbatim>\<open>continue\<close>), otherwise the request is completed.
\<close>

fun service_reports ::
  "externals \<Rightarrow> hid_input_report list \<Rightarrow> device_extension \<Rightarrow> device_extension" where
  "service_reports ext [] devContext = devContext"
| "service_reports ext (report # reports) devContext =
     (case WdfIoQueueRetrieveNextRequest (PingPongQueue devContext) of
        (status, popped, queue) \<Rightarrow>
          (case (NT_SUCCESS status, popped) of
             (True, Some request) \<Rightarrow>
               service_reports ext reports
                 (devContext\<lparr>PingPongQueue := queue,
                             Completed := Completed devContext @
                                          [complete_request ext request report],
                             Calls := Calls devContext @
                                      [Call_WdfIoQueueRetrieveNextRequest status]\<rparr>)
           | _ \<Rightarrow>
               service_reports ext reports
                 (devContext\<lparr>Calls := Calls devContext @
                                      [Call_WdfIoQueueRetrieveNextRequest status]\<rparr>)))"

definition OnInterruptIsr :: "externals \<Rightarrow> device_extension \<Rightarrow> bool \<times> device_extension" where
  "OnInterruptIsr ext devContext =
     (if DiagnosticMode devContext then (True, devContext)
      else
        (case TchServiceInterrupts ext (TouchContext devContext) (I2CContext devContext)
                (InputMode devContext) of
           (status, hidReportsFromDriver) \<Rightarrow>
             let serviced = devContext\<lparr>Calls := Calls devContext @ [Call_TchServiceInterrupts]\<rparr>
             in if \<not> NT_SUCCESS status then (True, serviced)
                else (True, service_reports ext hidReportsFromDriver serviced)))"

section \<open>Power transitions\<close>

definition OnD0Entry :: "externals \<Rightarrow> device_extension \<Rightarrow> ntstatus \<times> device_extension" where
  "OnD0Entry ext devContext =
     (let status = TchWakeDevice ext (TouchContext devContext) (I2CContext devContext);
          woken = devContext\<lparr>Calls := Calls devContext @ [Call_TchWakeDevice]\<rparr>;
          flagged = woken\<lparr>ServiceInterruptsAfterD0Entry := True\<rparr>;
          idled = flagged\<lparr>Calls := Calls flagged @ [Call_TchCompleteIdleIrp]\<rparr>
      in (status, idled))"

definition OnD0Exit :: "externals \<Rightarrow> device_extension \<Rightarrow> ntstatus \<times> device_extension" where
  "OnD0Exit ext devContext =
     (let status = TchStandbyDevice ext (TouchContext devContext) (I2CContext devContext)
      in (status, devContext\<lparr>Calls := Calls devContext @ [Call_TchStandbyDevice]\<rparr>))"

section \<open>Binding and releasing the hardware\<close>

text \<open>
  The test of the resource scan: a connection descriptor of the serial class and of the
  I2C type (the \<^verbatim>\<open>&&\<close> chain of \<^verbatim>\<open>OnPrepareHardware\<close>).
\<close>

definition is_i2c_connection :: "cm_partial_resource_descriptor \<Rightarrow> bool" where
  "is_i2c_connection res =
     (ResType res = CmResourceTypeConnection \<and>
      Connection_Class res = CM_RESOURCE_CONNECTION_CLASS_SERIAL \<and>
      Connection_Type res = CM_RESOURCE_CONNECTION_TYPE_SERIAL_I2C)"

text \<open>
  The \<^verbatim>\<open>for\<close> loop over the translated resources, threading \<^verbatim>\<open>status\<close> and
  the \<^verbatim>\<open>I2CContext\<close> it writes.
\<close>

fun scan_resources ::
  "cm_partial_resource_descriptor list \<Rightarrow> ntstatus \<times> spb_context \<Rightarrow> ntstatus \<times> spb_context" where
  "scan_resources [] (status, i2c) = (status, i2c)"
| "scan_resources (res # rest) (status, i2c) =
     (if is_i2c_connection res
      then scan_resources rest
             (STATUS_SUCCESS,
              i2c\<lparr>I2cResHubId_LowPart := Connection_IdLowPart res,
                  I2cResHubId_HighPart := Connection_IdHighPart res\<rparr>)
      else scan_resources rest (status, i2c))"

definition OnPrepareHardware ::
  "externals \<Rightarrow> cm_partial_resource_descriptor list \<Rightarrow> device_extension
     \<Rightarrow> ntstatus \<times> device_extension" where
  "OnPrepareHardware ext FxResourcesTranslated devContext =
     (case scan_resources FxResourcesTranslated
             (STATUS_INSUFFICIENT_RESOURCES, I2CContext devContext) of
        (status, i2c) \<Rightarrow>
          let scanned = devContext\<lparr>I2CContext := i2c\<rparr> in
          if \<not> NT_SUCCESS status then (status, scanned)
          else
            let status = SpbTargetInitialize ext (I2CContext scanned);
                spb = scanned\<lparr>Calls := Calls scanned @ [Call_SpbTargetInitialize]\<rparr>
            in if \<not> NT_SUCCESS status then (status, spb)
            else
              (case TchAllocateContext ext (TouchContext spb) of
                 (status, touchContext) \<Rightarrow>
                   let allocated = spb\<lparr>TouchContext := touchContext,
                                       Calls := Calls spb @ [Call_TchAllocateContext]\<rparr>
                   in if \<not> NT_SUCCESS status then (status, allocated)
                   else
                     let status = TchRegistryGetControllerSettings ext (TouchContext allocated);
                         configured = allocated\<lparr>Calls := Calls allocated @
                                                  [Call_TchRegistryGetControllerSettings]\<rparr>
                     in if \<not> NT_SUCCESS status then (status, configured)
                     else
                       let status = TchStartDevice ext (TouchContext configured)
                                      (I2CContext configured);
                           started = configured\<lparr>Calls := Calls configured @
                                                  [Call_TchStartDevice]\<rparr>
                       in (status, started)))"

definition OnReleaseHardware :: "externals \<Rightarrow> device_extension \<Rightarrow> ntstatus \<times> device_extension" where
  "OnReleaseHardware ext devContext =
     (let status = TchStopDevice ext (TouchContext devContext) (I2CContext devContext);
          stopped = devContext\<lparr>Calls := Calls devContext @ [Call_TchStopDevice]\<rparr>;
          status = TchFreeContext ext (TouchContext stopped);
          freed = stopped\<lparr>Calls := Calls stopped @ [Call_TchFreeContext]\<rparr>;
          deinitialized = freed\<lparr>Calls := Calls freed @ [Call_SpbTargetDeinitialize]\<rparr>
      in (status, deinitialized))"

section \<open>Vocabulary of the properties\<close>

text \<open>
  A completion carries report data when it has a success status and report bytes in the
  request's output buffer.
\<close>

definition completed_with_report_data :: "wdf_request \<times> ntstatus \<Rightarrow> bool" where
  "completed_with_report_data c = (NT_SUCCESS (snd c) \<and> OutputBuffer (fst c) \<noteq> None)"

text \<open>
  The output buffer of a request passes validation when the framework hands it out and
  reports a length of at least one report.
\<close>

definition output_buffer_ok :: "externals \<Rightarrow> wdf_request \<Rightarrow> bool" where
  "output_buffer_ok ext request =
     (case WdfRequestRetrieveOutputBuffer ext request (SizeofHidInputReport ext) of
        (status, len) \<Rightarrow> NT_SUCCESS status \<and> SizeofHidInputReport ext \<le> len)"

text \<open>
  The length the framework reports when it hands the output buffer of a request out is
  the length of that buffer.
\<close>

definition retrieve_reports_true_length :: "externals \<Rightarrow> wdf_request \<Rightarrow> bool" where
  "retrieve_reports_true_length ext request =
     (case WdfRequestRetrieveOutputBuffer ext request (SizeofHidInputReport ext) of
        (status, len) \<Rightarrow> NT_SUCCESS status \<longrightarrow> len = OutputBufferLength request)"

section \<open>Concrete instances\<close>

text \<open>
  Three behaviours of \<^verbatim>\<open>WdfRequestRetrieveOutputBuffer\<close> for the evaluations below:
  one refuses a buffer shorter than the minimum with \<^verbatim>\<open>STATUS_BUFFER_TOO_SMALL\<close>,
  one hands every buffer out with its length and leaves the size check to the caller, and
  one refuses a buffer shorter than the minimum with \<^verbatim>\<open>STATUS_INSUFFICIENT_RESOURCES\<close>,
  another of the failure statuses the framework documents for this call.
\<close>

definition strict_retrieve_output_buffer :: "wdf_request \<Rightarrow> nat \<Rightarrow> ntstatus \<times> nat" where
  "strict_retrieve_output_buffer request minimum =
     (if OutputBufferLength request < minimum then (STATUS_BUFFER_TOO_SMALL, 0)
      else (STATUS_SUCCESS, OutputBufferLength request))"

definition lenient_retrieve_output_buffer :: "wdf_request \<Rightarrow> nat \<Rightarrow> ntstatus \<times> nat" where
  "lenient_retrieve_output_buffer request minimum = (STATUS_SUCCESS, OutputBufferLength request)"

definition refusing_retrieve_output_buffer :: "wdf_request \<Rightarrow> nat \<Rightarrow> ntstatus \<times> nat" where
  "refusing_retrieve_output_buffer request minimum =
     (if OutputBufferLength request < minimum then (STATUS_INSUFFICIENT_RESOURCES, 0)
      else (STATUS_SUCCESS, OutputBufferLength request))"

text \<open>
  Collaborators with four-byte reports: the report source returns \<open>service_status\<close> and
  \<open>reports\<close>; waking and stopping the device return \<open>tch_status\<close>; everything else
  succeeds.
\<close>

definition sample_ext ::
  "(wdf_request \<Rightarrow> nat \<Rightarrow> ntstatus \<times> nat) \<Rightarrow> ntstatus \<Rightarrow> hid_input_report list \<Rightarrow> ntstatus
     \<Rightarrow> externals" where
  "sample_ext retrieve service_status reports tch_status =
     \<lparr>SizeofHidInputReport = 4,
      TchServiceInterrupts = (\<lambda>touch i2c mode. (service_status, reports)),
      WdfRequestRetrieveOutputBuffer = retrieve,
      TchWakeDevice = (\<lambda>touch i2c. tch_status),
      TchStandbyDevice = (\<lambda>touch i2c. STATUS_SUCCESS),
      SpbTargetInitialize = (\<lambda>i2c. STATUS_SUCCESS),
      TchAllocateContext = (\<lambda>touch. (STATUS_SUCCESS, 7)),
      TchRegistryGetControllerSettings = (\<lambda>touch. STATUS_SUCCESS),
      TchStartDevice = (\<lambda>touch i2c. STATUS_SUCCESS),
      TchStopDevice = (\<lambda>touch i2c. tch_status),
      TchFreeContext = (\<lambda>touch. STATUS_SUCCESS)\<rparr>"

definition sample_request :: "nat \<Rightarrow> nat \<Rightarrow> wdf_request" where
  "sample_request ident len =
     \<lparr>RequestId = ident, OutputBufferLength = len, OutputBuffer = None, Information = 0\<rparr>"

definition sample_dev :: "bool \<Rightarrow> wdf_request list \<Rightarrow> device_extension" where
  "sample_dev diag queue =
     \<lparr>DiagnosticMode = diag, TouchContext = 1,
      I2CContext = \<lparr>I2cResHubId_LowPart = 0, I2cResHubId_HighPart = 0\<rparr>,
      InputMode = 0, PingPongQueue = queue, ServiceInterruptsAfterD0Entry = False,
      Completed = [], Calls = []\<rparr>"

definition sample_i2c :: "32 word \<Rightarrow> 32 word \<Rightarrow> cm_partial_resource_descriptor" where
  "sample_i2c lo hi =
     \<lparr>ResType = CmResourceTypeConnection,
      Connection_Class = CM_RESOURCE_CONNECTION_CLASS_SERIAL,
      Connection_Type = CM_RESOURCE_CONNECTION_TYPE_SERIAL_I2C,
      Connection_IdLowPart = lo, Connection_IdHighPart = hi\<rparr>"

text \<open>A descriptor of another kind (\<^verbatim>\<open>CmResourceTypeInterrupt\<close> is 2).\<close>

definition sample_interrupt :: cm_partial_resource_descriptor where
  "sample_interrupt =
     \<lparr>ResType = 2, Connection_Class = 0, Connection_Type = 0,
      Connection_IdLowPart = 0, Connection_IdHighPart = 0\<rparr>"

section \<open>Auxiliary facts\<close>

lemma NT_SUCCESS_STATUS_SUCCESS: "NT_SUCCESS STATUS_SUCCESS"
  by (simp add: NT_SUCCESS_def STATUS_SUCCESS_def)

lemma not_NT_SUCCESS_STATUS_UNSUCCESSFUL: "\<not> NT_SUCCESS STATUS_UNSUCCESSFUL"
  by (simp add: NT_SUCCESS_def STATUS_UNSUCCESSFUL_def)

lemma not_NT_SUCCESS_STATUS_NO_MORE_ENTRIES: "\<not> NT_SUCCESS STATUS_NO_MORE_ENTRIES"
  by (simp add: NT_SUCCESS_def STATUS_NO_MORE_ENTRIES_def)

lemma not_NT_SUCCESS_STATUS_BUFFER_TOO_SMALL: "\<not> NT_SUCCESS STATUS_BUFFER_TOO_SMALL"
  by (simp add: NT_SUCCESS_def STATUS_BUFFER_TOO_SMALL_def)

lemma not_NT_SUCCESS_STATUS_INSUFFICIENT_RESOURCES: "\<not> NT_SUCCESS STATUS_INSUFFICIENT_RESOURCES"
  by (simp add: NT_SUCCESS_def STATUS_INSUFFICIENT_RESOURCES_def)

lemmas status_simps =
  NT_SUCCESS_STATUS_SUCCESS not_NT_SUCCESS_STATUS_UNSUCCESSFUL
  not_NT_SUCCESS_STATUS_NO_MORE_ENTRIES not_NT_SUCCESS_STATUS_BUFFER_TOO_SMALL
  not_NT_SUCCESS_STATUS_INSUFFICIENT_RESOURCES

lemmas sample_defs =
  strict_retrieve_output_buffer_def sample_ext_def sample_request_def sample_dev_def

lemmas resource_defs =
  is_i2c_connection_def CmResourceTypeConnection_def CM_RESOURCE_CONNECTION_CLASS_SERIAL_def
  CM_RESOURCE_CONNECTION_TYPE_SERIAL_I2C_def

subsection \<open>The loop over the reports\<close>

text \<open>With nothing queued every remaining report is skipped by a failed pop.\<close>

lemma service_reports_no_request:
  "PingPongQueue d = [] \<Longrightarrow>
   service_reports ext reports d =
     d\<lparr>Calls := Calls d @
          replicate (length reports) (Call_WdfIoQueueRetrieveNextRequest STATUS_NO_MORE_ENTRIES)\<rparr>"
proof (induction reports arbitrary: d)
  case Nil
  then show ?case by simp
next
  case (Cons report reports)
  then show ?case
    by (simp add: not_NT_SUCCESS_STATUS_NO_MORE_ENTRIES replicate_append_same)
qed

text \<open>
  The whole loop in closed form: requests and reports are paired off in order until one of
  the two runs out.
\<close>

lemma service_reports_unfold:
  "service_reports ext reports d =
     d\<lparr>PingPongQueue := drop (length reports) (PingPongQueue d),
       Completed := Completed d @
         map (\<lambda>(request, report). complete_request ext request report)
             (zip (PingPongQueue d) reports),
       Calls := Calls d @
         replicate (min (length reports) (length (PingPongQueue d)))
           (Call_WdfIoQueueRetrieveNextRequest STATUS_SUCCESS) @
         replicate (length reports - length (PingPongQueue d))
           (Call_WdfIoQueueRetrieveNextRequest STATUS_NO_MORE_ENTRIES)\<rparr>"
proof (induction reports arbitrary: d)
  case Nil
  then show ?case by simp
next
  case (Cons report reports)
  show ?case
  proof (cases "PingPongQueue d")
    case Nil
    then show ?thesis
      by (simp add: service_reports_no_request del: service_reports.simps)
  next
    case (Cons request queue)
    then show ?thesis
      by (simp add: Cons.IH NT_SUCCESS_STATUS_SUCCESS)
  qed
qed

lemma map_zip_index:
  "map (\<lambda>(x, y). f x y) (zip xs ys) =
   map (\<lambda>i. f (xs ! i) (ys ! i)) [0..<min (length ys) (length xs)]"
  by (rule nth_equalityI) (simp_all add: min.commute)

lemma OnInterruptIsr_success:
  assumes "\<not> DiagnosticMode d"
    and "TchServiceInterrupts ext (TouchContext d) (I2CContext d) (InputMode d) = (status, reports)"
    and "NT_SUCCESS status"
  shows "OnInterruptIsr ext d =
     (True, d\<lparr>PingPongQueue := drop (length reports) (PingPongQueue d),
       Completed := Completed d @
         map (\<lambda>(request, report). complete_request ext request report)
             (zip (PingPongQueue d) reports),
       Calls := Calls d @ [Call_TchServiceInterrupts] @
         replicate (min (length reports) (length (PingPongQueue d)))
           (Call_WdfIoQueueRetrieveNextRequest STATUS_SUCCESS) @
         replicate (length reports - length (PingPongQueue d))
           (Call_WdfIoQueueRetrieveNextRequest STATUS_NO_MORE_ENTRIES)\<rparr>)"
  using assms by (simp add: OnInterruptIsr_def service_reports_unfold)

subsection \<open>Completing one request\<close>

lemma output_buffer_ok_status:
  "output_buffer_ok ext request \<Longrightarrow>
   NT_SUCCESS (fst (WdfRequestRetrieveOutputBuffer ext request (SizeofHidInputReport ext)))"
  by (auto simp: output_buffer_ok_def split: prod.splits)

lemma complete_request_ok:
  "output_buffer_ok ext request \<Longrightarrow>
   complete_request ext request report =
     (request\<lparr>OutputBuffer := Some report, Information := SizeofHidInputReport ext\<rparr>,
      fst (WdfRequestRetrieveOutputBuffer ext request (SizeofHidInputReport ext)))"
  by (auto simp: output_buffer_ok_def complete_request_def split: prod.splits)

lemma complete_request_not_ok:
  "\<not> output_buffer_ok ext request \<Longrightarrow>
   fst (complete_request ext request report) = request \<and>
   \<not> NT_SUCCESS (snd (complete_request ext request report))"
  by (auto simp: output_buffer_ok_def complete_request_def not_NT_SUCCESS_STATUS_BUFFER_TOO_SMALL
      split: prod.splits)

lemma complete_request_rejected:
  assumes "\<not> output_buffer_ok ext request"
  shows "complete_request ext request report =
     (request,
      if NT_SUCCESS (fst (WdfRequestRetrieveOutputBuffer ext request (SizeofHidInputReport ext)))
      then STATUS_BUFFER_TOO_SMALL
      else fst (WdfRequestRetrieveOutputBuffer ext request (SizeofHidInputReport ext)))"
  using assms
  by (auto simp: complete_request_def output_buffer_ok_def split: prod.splits)

lemma short_buffer_fails_validation:
  assumes "OutputBufferLength request < SizeofHidInputReport ext"
    and "retrieve_reports_true_length ext request"
  shows "\<not> output_buffer_ok ext request"
  using assms
  by (auto simp: output_buffer_ok_def retrieve_reports_true_length_def split: prod.splits)

subsection \<open>The resource scan\<close>

lemma scan_resources_no_match:
  "\<forall>res \<in> set rs. \<not> is_i2c_connection res \<Longrightarrow> scan_resources rs (status, i2c) = (status, i2c)"
  by (induction rs) simp_all

lemma scan_resources_last_match:
  "filter is_i2c_connection rs \<noteq> [] \<Longrightarrow>
   scan_resources rs (status, i2c) =
     (STATUS_SUCCESS,
      i2c\<lparr>I2cResHubId_LowPart := Connection_IdLowPart (last (filter is_i2c_connection rs)),
          I2cResHubId_HighPart := Connection_IdHighPart (last (filter is_i2c_connection rs))\<rparr>)"
proof (induction rs arbitrary: status i2c)
  case Nil
  then show ?case by simp
next
  case (Cons res rs)
  show ?case
  proof (cases "filter is_i2c_connection rs = []")
    case True
    then have "\<forall>r \<in> set rs. \<not> is_i2c_connection r"
      by (simp add: filter_empty_conv)
    with Cons.prems True show ?thesis
      by (simp add: scan_resources_no_match split: if_splits)
  next
    case False
    then show ?thesis
      by (simp add: Cons.IH)
  qed
qed

section \<open>Interrupt servicing: properties\<close>

text \<open>
  Claim C1, as stated: a pass in which the report source succeeds with N reports while M
  requests are queued completes exactly min(N, M) requests with report data. It fails
  when a queued request has an output buffer shorter than one report: with one report and
  one such request, the request is popped and completed with
  \<^verbatim>\<open>STATUS_BUFFER_TOO_SMALL\<close> and nothing written, so no request is completed with
  report data although min(1, 1) = 1.
\<close>

theorem interrupt_pass_undersized_buffer_counterexample:
  "\<not> DiagnosticMode (sample_dev False [sample_request 1 2]) \<and>
   TchServiceInterrupts
     (sample_ext strict_retrieve_output_buffer STATUS_SUCCESS [[1, 2, 3, 4]] STATUS_SUCCESS)
     (TouchContext (sample_dev False [sample_request 1 2]))
     (I2CContext (sample_dev False [sample_request 1 2]))
     (InputMode (sample_dev False [sample_request 1 2])) = (STATUS_SUCCESS, [[1, 2, 3, 4]]) \<and>
   NT_SUCCESS STATUS_SUCCESS \<and>
   PingPongQueue (sample_dev False [sample_request 1 2]) = [sample_request 1 2] \<and>
   Completed (snd (OnInterruptIsr
       (sample_ext strict_retrieve_output_buffer STATUS_SUCCESS [[1, 2, 3, 4]] STATUS_SUCCESS)
       (sample_dev False [sample_request 1 2]))) =
     [(sample_request 1 2, STATUS_BUFFER_TOO_SMALL)] \<and>
   length (filter completed_with_report_data
     (Completed (snd (OnInterruptIsr
       (sample_ext strict_retrieve_output_buffer STATUS_SUCCESS [[1, 2, 3, 4]] STATUS_SUCCESS)
       (sample_dev False [sample_request 1 2]))))) \<noteq>
     min (length [[1, 2, 3, 4 :: 8 word]])
         (length (PingPongQueue (sample_dev False [sample_request 1 2])))"
  by (simp add: sample_defs OnInterruptIsr_def complete_request_def
      completed_with_report_data_def status_simps)

text \<open>
  Claim C1, amended: in a pass in which the report source succeeds with N reports while M
  requests are queued, exactly min(N, M) requests are popped and completed, the i-th
  oldest request together with report i. Such a request is completed with report i in its
  buffer, a byte count of one report and a success status when its output buffer passes
  validation; otherwise it is completed unwritten with a failure status, and report i is
  gone with it. The M - N youngest requests (none if N exceeds M) stay queued in their
  order, and the last N - M reports (none if M exceeds N) each meet a failed pop and are
  dropped; the device extension keeps no report for a later pass.
\<close>

theorem interrupt_pass_pairs_requests_with_reports:
  assumes "\<not> DiagnosticMode d"
    and "TchServiceInterrupts ext (TouchContext d) (I2CContext d) (InputMode d) = (status, reports)"
    and "NT_SUCCESS status"
  shows "let d' = snd (OnInterruptIsr ext d);
             queue = PingPongQueue d;
             N = length reports;
             M = length queue
         in Completed d' = Completed d @
              map (\<lambda>i. complete_request ext (queue ! i) (reports ! i)) [0..<min N M] \<and>
            (\<forall>i<min N M. output_buffer_ok ext (queue ! i) \<longrightarrow>
               fst (complete_request ext (queue ! i) (reports ! i)) =
                 (queue ! i)\<lparr>OutputBuffer := Some (reports ! i),
                             Information := SizeofHidInputReport ext\<rparr> \<and>
               NT_SUCCESS (snd (complete_request ext (queue ! i) (reports ! i)))) \<and>
            (\<forall>i<min N M. \<not> output_buffer_ok ext (queue ! i) \<longrightarrow>
               fst (complete_request ext (queue ! i) (reports ! i)) = queue ! i \<and>
               \<not> NT_SUCCESS (snd (complete_request ext (queue ! i) (reports ! i)))) \<and>
            PingPongQueue d' = drop N queue \<and>
            length (PingPongQueue d') = M - N \<and>
            Calls d' = Calls d @ [Call_TchServiceInterrupts] @
              replicate (min N M) (Call_WdfIoQueueRetrieveNextRequest STATUS_SUCCESS) @
              replicate (N - M) (Call_WdfIoQueueRetrieveNextRequest STATUS_NO_MORE_ENTRIES)"
  unfolding Let_def OnInterruptIsr_success [OF assms]
  by (simp add: map_zip_index complete_request_ok complete_request_not_ok
      output_buffer_ok_status)

text \<open>
  Two reports and one queued request with room for a report: the request gets the first
  report, the second report is dropped, the queue ends empty.
\<close>

theorem interrupt_pass_pairs_requests_with_reports_witness:
  "OnInterruptIsr
     (sample_ext strict_retrieve_output_buffer STATUS_SUCCESS [[1, 2, 3, 4], [5, 6, 7, 8]]
        STATUS_SUCCESS)
     (sample_dev False [sample_request 1 4]) =
   (True,
    (sample_dev False [])
      \<lparr>Completed := [((sample_request 1 4)\<lparr>OutputBuffer := Some [1, 2, 3, 4], Information := 4\<rparr>,
                      STATUS_SUCCESS)],
       Calls := [Call_TchServiceInterrupts,
                 Call_WdfIoQueueRetrieveNextRequest STATUS_SUCCESS,
                 Call_WdfIoQueueRetrieveNextRequest STATUS_NO_MORE_ENTRIES]\<rparr>)"
proof -
  let ?ext = "sample_ext strict_retrieve_output_buffer STATUS_SUCCESS
     [[1, 2, 3, 4], [5, 6, 7, 8]] STATUS_SUCCESS"
  let ?d = "sample_dev False [sample_request 1 4]"
  have diag: "\<not> DiagnosticMode ?d"
    by (simp add: sample_defs)
  have source: "TchServiceInterrupts ?ext (TouchContext ?d) (I2CContext ?d) (InputMode ?d) =
      (STATUS_SUCCESS, [[1, 2, 3, 4], [5, 6, 7, 8]])"
    by (simp add: sample_defs)
  show ?thesis
    using interrupt_pass_pairs_requests_with_reports [OF diag source NT_SUCCESS_STATUS_SUCCESS]
    by (simp add: OnInterruptIsr_def complete_request_def sample_defs status_simps)
qed

text \<open>
  Claim C2: when the report source returns a failure status, the pass ends there: the
  interrupt is reported handled, and apart from the record of that one call the device
  extension is as before, so no request has been popped or completed and no report has
  been read.
\<close>

theorem interrupt_pass_source_failure:
  assumes "\<not> DiagnosticMode d"
    and "\<not> NT_SUCCESS (fst (TchServiceInterrupts ext (TouchContext d) (I2CContext d) (InputMode d)))"
  shows "OnInterruptIsr ext d = (True, d\<lparr>Calls := Calls d @ [Call_TchServiceInterrupts]\<rparr>)"
  using assms by (auto simp: OnInterruptIsr_def Let_def split: prod.splits)

theorem interrupt_pass_source_failure_witness:
  "OnInterruptIsr
     (sample_ext strict_retrieve_output_buffer STATUS_UNSUCCESSFUL [[1, 2, 3, 4]] STATUS_SUCCESS)
     (sample_dev False [sample_request 1 4]) =
   (True, (sample_dev False [sample_request 1 4])\<lparr>Calls := [Call_TchServiceInterrupts]\<rparr>)"
proof -
  let ?ext = "sample_ext strict_retrieve_output_buffer STATUS_UNSUCCESSFUL [[1, 2, 3, 4]]
     STATUS_SUCCESS"
  let ?d = "sample_dev False [sample_request 1 4]"
  have diag: "\<not> DiagnosticMode ?d"
    by (simp add: sample_defs)
  have failed: "\<not> NT_SUCCESS
      (fst (TchServiceInterrupts ?ext (TouchContext ?d) (I2CContext ?d) (InputMode ?d)))"
    by (simp add: sample_defs status_simps)
  show ?thesis
    using interrupt_pass_source_failure [OF diag failed]
    by (simp add: sample_defs)
qed

text \<open>
  Claim C3, as stated: a popped request whose output buffer is shorter than one report is
  completed with \<^verbatim>\<open>STATUS_BUFFER_TOO_SMALL\<close>. It fails when the framework refuses
  to hand the short buffer out with another failure status: the loop completes the request
  with the status of the refusal, here \<^verbatim>\<open>STATUS_INSUFFICIENT_RESOURCES\<close>.
\<close>

theorem undersized_buffer_refused_counterexample:
  "\<not> DiagnosticMode (sample_dev False [sample_request 1 2]) \<and>
   TchServiceInterrupts
     (sample_ext refusing_retrieve_output_buffer STATUS_SUCCESS [[1, 2, 3, 4]] STATUS_SUCCESS)
     (TouchContext (sample_dev False [sample_request 1 2]))
     (I2CContext (sample_dev False [sample_request 1 2]))
     (InputMode (sample_dev False [sample_request 1 2])) = (STATUS_SUCCESS, [[1, 2, 3, 4]]) \<and>
   PingPongQueue (sample_dev False [sample_request 1 2]) = [sample_request 1 2] \<and>
   OutputBufferLength (sample_request 1 2) <
     SizeofHidInputReport
       (sample_ext refusing_retrieve_output_buffer STATUS_SUCCESS [[1, 2, 3, 4]] STATUS_SUCCESS) \<and>
   Completed (snd (OnInterruptIsr
       (sample_ext refusing_retrieve_output_buffer STATUS_SUCCESS [[1, 2, 3, 4]] STATUS_SUCCESS)
       (sample_dev False [sample_request 1 2]))) =
     [(sample_request 1 2, STATUS_INSUFFICIENT_RESOURCES)] \<and>
   STATUS_INSUFFICIENT_RESOURCES \<noteq> STATUS_BUFFER_TOO_SMALL"
proof -
  have differ: "STATUS_INSUFFICIENT_RESOURCES \<noteq> STATUS_BUFFER_TOO_SMALL"
    by (simp add: STATUS_INSUFFICIENT_RESOURCES_def STATUS_BUFFER_TOO_SMALL_def)
  then show ?thesis
    by (simp add: sample_defs refusing_retrieve_output_buffer_def OnInterruptIsr_def
        complete_request_def status_simps)
qed

text \<open>
  Claim C3, amended: in a pass, a popped request whose output buffer is shorter than one
  report, the framework reporting the buffer's length when it hands the buffer out, is
  completed exactly as it was popped (nothing copied, no byte count set) with a failure
  status: \<^verbatim>\<open>STATUS_BUFFER_TOO_SMALL\<close> when the framework hands the buffer out, and
  the framework's own status when it refuses. Every later report of the pass is still
  paired with the next queued request.
\<close>

theorem undersized_buffer_completed_unwritten:
  assumes "\<not> DiagnosticMode d"
    and "TchServiceInterrupts ext (TouchContext d) (I2CContext d) (InputMode d) = (status, reports)"
    and "NT_SUCCESS status"
    and "i < length reports" and "i < length (PingPongQueue d)"
    and "OutputBufferLength (PingPongQueue d ! i) < SizeofHidInputReport ext"
    and "retrieve_reports_true_length ext (PingPongQueue d ! i)"
  shows "let new = drop (length (Completed d)) (Completed (snd (OnInterruptIsr ext d)));
             retrieved = fst (WdfRequestRetrieveOutputBuffer ext (PingPongQueue d ! i)
                                (SizeofHidInputReport ext))
         in new ! i = (PingPongQueue d ! i,
                       if NT_SUCCESS retrieved then STATUS_BUFFER_TOO_SMALL else retrieved) \<and>
            \<not> NT_SUCCESS (snd (new ! i)) \<and>
            (\<forall>j. i < j \<and> j < length reports \<and> j < length (PingPongQueue d) \<longrightarrow>
               new ! j = complete_request ext (PingPongQueue d ! j) (reports ! j))"
proof -
  have rejected: "\<not> output_buffer_ok ext (PingPongQueue d ! i)"
    using assms(6,7) by (rule short_buffer_fails_validation)
  show ?thesis
    unfolding Let_def OnInterruptIsr_success [OF assms(1-3)]
    using assms(4,5)
    by (simp add: complete_request_rejected [OF rejected]
        not_NT_SUCCESS_STATUS_BUFFER_TOO_SMALL)
qed

text \<open>
  A two-byte buffer ahead of a four-byte one. When the framework hands both out, the size
  check of the loop rejects the first request with \<^verbatim>\<open>STATUS_BUFFER_TOO_SMALL\<close>; when
  the framework refuses the short one, the first request carries the status of the
  refusal. Either way the second request gets the second report.
\<close>

theorem undersized_buffer_completed_unwritten_witness:
  "Completed (snd (OnInterruptIsr
     (sample_ext lenient_retrieve_output_buffer STATUS_SUCCESS [[1, 2, 3, 4], [5, 6, 7, 8]]
        STATUS_SUCCESS)
     (sample_dev False [sample_request 1 2, sample_request 2 4]))) =
   [(sample_request 1 2, STATUS_BUFFER_TOO_SMALL),
    ((sample_request 2 4)\<lparr>OutputBuffer := Some [5, 6, 7, 8], Information := 4\<rparr>, STATUS_SUCCESS)] \<and>
   Completed (snd (OnInterruptIsr
     (sample_ext refusing_retrieve_output_buffer STATUS_SUCCESS [[1, 2, 3, 4], [5, 6, 7, 8]]
        STATUS_SUCCESS)
     (sample_dev False [sample_request 1 2, sample_request 2 4]))) =
   [(sample_request 1 2, STATUS_INSUFFICIENT_RESOURCES),
    ((sample_request 2 4)\<lparr>OutputBuffer := Some [5, 6, 7, 8], Information := 4\<rparr>, STATUS_SUCCESS)]"
proof -
  let ?lenient = "sample_ext lenient_retrieve_output_buffer STATUS_SUCCESS
     [[1, 2, 3, 4], [5, 6, 7, 8]] STATUS_SUCCESS"
  let ?refusing = "sample_ext refusing_retrieve_output_buffer STATUS_SUCCESS
     [[1, 2, 3, 4], [5, 6, 7, 8]] STATUS_SUCCESS"
  let ?d = "sample_dev False [sample_request 1 2, sample_request 2 4]"
  have diag: "\<not> DiagnosticMode ?d"
    by (simp add: sample_defs)
  have report: "0 < length [[1, 2, 3, 4], [5, 6, 7, 8 :: 8 word]]"
    by simp
  have request: "0 < length (PingPongQueue ?d)"
    by (simp add: sample_defs)
  have source_l: "TchServiceInterrupts ?lenient (TouchContext ?d) (I2CContext ?d) (InputMode ?d) =
      (STATUS_SUCCESS, [[1, 2, 3, 4], [5, 6, 7, 8]])"
    by (simp add: sample_defs)
  have short_l: "OutputBufferLength (PingPongQueue ?d ! 0) < SizeofHidInputReport ?lenient"
    by (simp add: sample_defs)
  have true_l: "retrieve_reports_true_length ?lenient (PingPongQueue ?d ! 0)"
    by (simp add: retrieve_reports_true_length_def sample_defs
        lenient_retrieve_output_buffer_def)
  have source_r: "TchServiceInterrupts ?refusing (TouchContext ?d) (I2CContext ?d) (InputMode ?d) =
      (STATUS_SUCCESS, [[1, 2, 3, 4], [5, 6, 7, 8]])"
    by (simp add: sample_defs)
  have short_r: "OutputBufferLength (PingPongQueue ?d ! 0) < SizeofHidInputReport ?refusing"
    by (simp add: sample_defs)
  have true_r: "retrieve_reports_true_length ?refusing (PingPongQueue ?d ! 0)"
    by (simp add: retrieve_reports_true_length_def sample_defs
        refusing_retrieve_output_buffer_def status_simps)
  show ?thesis
    using undersized_buffer_completed_unwritten
      [OF diag source_l NT_SUCCESS_STATUS_SUCCESS report request short_l true_l]
      undersized_buffer_completed_unwritten
      [OF diag source_r NT_SUCCESS_STATUS_SUCCESS report request short_r true_r]
    by (simp add: OnInterruptIsr_def complete_request_def sample_defs
        lenient_retrieve_output_buffer_def refusing_retrieve_output_buffer_def status_simps)
qed

text \<open>
  Claim C4: \<^verbatim>\<open>OnInterruptIsr\<close> returns \<^verbatim>\<open>TRUE\<close> whatever the device extension and
  whatever the collaborators do: in diagnostic mode, when the report source fails, with an
  empty queue, with a rejected buffer and on full success.
\<close>

theorem OnInterruptIsr_always_handled:
  "fst (OnInterruptIsr ext d) = True"
  by (simp add: OnInterruptIsr_def Let_def split: prod.splits)

theorem OnInterruptIsr_always_handled_witness:
  "fst (OnInterruptIsr
     (sample_ext strict_retrieve_output_buffer STATUS_UNSUCCESSFUL [] STATUS_SUCCESS)
     (sample_dev False [])) = True"
  using OnInterruptIsr_always_handled
    [of "sample_ext strict_retrieve_output_buffer STATUS_UNSUCCESSFUL [] STATUS_SUCCESS"
        "sample_dev False []"]
  by simp

text \<open>
  Claim C8: in diagnostic mode \<^verbatim>\<open>OnInterruptIsr\<close> returns \<^verbatim>\<open>TRUE\<close> and leaves the
  device extension untouched: the report source is not called, no request is popped or
  completed, the queue and every field are as before.
\<close>

theorem OnInterruptIsr_diagnostic_mode:
  assumes "DiagnosticMode d"
  shows "OnInterruptIsr ext d = (True, d)"
  using assms by (simp add: OnInterruptIsr_def)

theorem OnInterruptIsr_diagnostic_mode_witness:
  "OnInterruptIsr
     (sample_ext strict_retrieve_output_buffer STATUS_SUCCESS [[1, 2, 3, 4]] STATUS_SUCCESS)
     (sample_dev True [sample_request 1 4]) =
   (True, sample_dev True [sample_request 1 4])"
proof -
  have diag: "DiagnosticMode (sample_dev True [sample_request 1 4])"
    by (simp add: sample_defs)
  show ?thesis
    using OnInterruptIsr_diagnostic_mode [OF diag] by simp
qed

section \<open>Power transitions: properties\<close>

text \<open>
  Claim C5: \<^verbatim>\<open>OnD0Entry\<close> returns the status of \<^verbatim>\<open>TchWakeDevice\<close> and leaves
  \<^verbatim>\<open>ServiceInterruptsAfterD0Entry\<close> set, whether waking the device succeeded or not.
\<close>

theorem OnD0Entry_sets_service_flag:
  "fst (OnD0Entry ext d) = TchWakeDevice ext (TouchContext d) (I2CContext d) \<and>
   ServiceInterruptsAfterD0Entry (snd (OnD0Entry ext d)) = True"
  by (simp add: OnD0Entry_def Let_def)

text \<open>Waking fails: the failure is returned and the flag is set all the same.\<close>

theorem OnD0Entry_sets_service_flag_witness:
  "fst (OnD0Entry (sample_ext strict_retrieve_output_buffer STATUS_SUCCESS [] STATUS_UNSUCCESSFUL)
          (sample_dev False [])) = STATUS_UNSUCCESSFUL \<and>
   \<not> NT_SUCCESS STATUS_UNSUCCESSFUL \<and>
   ServiceInterruptsAfterD0Entry
     (snd (OnD0Entry (sample_ext strict_retrieve_output_buffer STATUS_SUCCESS [] STATUS_UNSUCCESSFUL)
             (sample_dev False []))) = True"
  using OnD0Entry_sets_service_flag
    [of "sample_ext strict_retrieve_output_buffer STATUS_SUCCESS [] STATUS_UNSUCCESSFUL"
        "sample_dev False []"]
  by (simp add: sample_defs status_simps)

section \<open>Binding and releasing the hardware: properties\<close>

text \<open>
  Claim C6: when no translated resource is an I2C connection descriptor,
  \<^verbatim>\<open>OnPrepareHardware\<close> returns \<^verbatim>\<open>STATUS_INSUFFICIENT_RESOURCES\<close>, a failure
  status, and the device extension is as before: \<^verbatim>\<open>SpbTargetInitialize\<close> and the
  later steps have not been called.
\<close>

theorem OnPrepareHardware_no_i2c_connection:
  assumes "\<forall>res \<in> set rs. \<not> is_i2c_connection res"
  shows "OnPrepareHardware ext rs d = (STATUS_INSUFFICIENT_RESOURCES, d) \<and>
         \<not> NT_SUCCESS STATUS_INSUFFICIENT_RESOURCES"
  using assms
  by (simp add: OnPrepareHardware_def scan_resources_no_match
      not_NT_SUCCESS_STATUS_INSUFFICIENT_RESOURCES)

theorem OnPrepareHardware_no_i2c_connection_witness:
  "OnPrepareHardware (sample_ext strict_retrieve_output_buffer STATUS_SUCCESS [] STATUS_SUCCESS)
     [sample_interrupt] (sample_dev False []) =
   (STATUS_INSUFFICIENT_RESOURCES, sample_dev False [])"
proof -
  have none: "\<forall>res \<in> set [sample_interrupt]. \<not> is_i2c_connection res"
    by (simp add: sample_interrupt_def resource_defs)
  show ?thesis
    using OnPrepareHardware_no_i2c_connection [OF none] by simp
qed

text \<open>
  Claim C9: when more than one translated resource is an I2C connection descriptor, the
  identifier left in the device extension is that of the last of them in list order, the
  scan does not fail (\<^verbatim>\<open>SpbTargetInitialize\<close> is the next call), and the outcome of
  the whole routine is the one it has when that last descriptor is the only resource.
\<close>

theorem OnPrepareHardware_last_i2c_connection_wins:
  assumes "1 < length (filter is_i2c_connection rs)"
  shows "let winner = last (filter is_i2c_connection rs);
             d' = snd (OnPrepareHardware ext rs d)
         in I2cResHubId_LowPart (I2CContext d') = Connection_IdLowPart winner \<and>
            I2cResHubId_HighPart (I2CContext d') = Connection_IdHighPart winner \<and>
            take (Suc (length (Calls d))) (Calls d') = Calls d @ [Call_SpbTargetInitialize] \<and>
            OnPrepareHardware ext rs d = OnPrepareHardware ext [winner] d"
proof -
  let ?ms = "filter is_i2c_connection rs"
  from assms have ne: "?ms \<noteq> []" by auto
  then have "last ?ms \<in> set ?ms" by (rule last_in_set)
  then have w: "is_i2c_connection (last ?ms)" by simp
  show ?thesis
    unfolding Let_def
    by (simp add: OnPrepareHardware_def scan_resources_last_match [OF ne] w
        NT_SUCCESS_STATUS_SUCCESS Let_def split: prod.splits)
qed

text \<open>
  Two I2C connection descriptors around an interrupt descriptor: the second identifier is
  kept and the bind succeeds.
\<close>

theorem OnPrepareHardware_last_i2c_connection_wins_witness:
  "OnPrepareHardware (sample_ext strict_retrieve_output_buffer STATUS_SUCCESS [] STATUS_SUCCESS)
     [sample_i2c 1 2, sample_interrupt, sample_i2c 3 4] (sample_dev False []) =
   (STATUS_SUCCESS,
    (sample_dev False [])
      \<lparr>TouchContext := 7,
       I2CContext := \<lparr>I2cResHubId_LowPart = 3, I2cResHubId_HighPart = 4\<rparr>,
       Calls := [Call_SpbTargetInitialize, Call_TchAllocateContext,
                 Call_TchRegistryGetControllerSettings, Call_TchStartDevice]\<rparr>)"
proof -
  have two: "1 < length (filter is_i2c_connection
      [sample_i2c 1 2, sample_interrupt, sample_i2c 3 4])"
    by (simp add: sample_i2c_def sample_interrupt_def resource_defs)
  show ?thesis
    using OnPrepareHardware_last_i2c_connection_wins [OF two]
    by (simp add: OnPrepareHardware_def sample_defs sample_i2c_def sample_interrupt_def
        resource_defs status_simps)
qed

text \<open>
  Claim C7: \<^verbatim>\<open>OnReleaseHardware\<close> calls \<^verbatim>\<open>TchStopDevice\<close>,
  \<^verbatim>\<open>TchFreeContext\<close> and \<^verbatim>\<open>SpbTargetDeinitialize\<close>, each once and in this order,
  whatever status the earlier steps return.
\<close>

theorem OnReleaseHardware_runs_every_step:
  "Calls (snd (OnReleaseHardware ext d)) =
     Calls d @ [Call_TchStopDevice, Call_TchFreeContext, Call_SpbTargetDeinitialize]"
  by (simp add: OnReleaseHardware_def Let_def)

text \<open>Stopping the device fails: the two later steps still run.\<close>

theorem OnReleaseHardware_runs_every_step_witness:
  "\<not> NT_SUCCESS (TchStopDevice
       (sample_ext strict_retrieve_output_buffer STATUS_SUCCESS [] STATUS_UNSUCCESSFUL)
       (TouchContext (sample_dev False [])) (I2CContext (sample_dev False []))) \<and>
   Calls (snd (OnReleaseHardware
       (sample_ext strict_retrieve_output_buffer STATUS_SUCCESS [] STATUS_UNSUCCESSFUL)
       (sample_dev False []))) =
     [Call_TchStopDevice, Call_TchFreeContext, Call_SpbTargetDeinitialize]"
  using OnReleaseHardware_runs_every_step
    [of "sample_ext strict_retrieve_output_buffer STATUS_SUCCESS [] STATUS_UNSUCCESSFUL"
        "sample_dev False []"]
  by (simp add: sample_defs status_simps)

text \<open>
  Claim C10: the status \<^verbatim>\<open>OnReleaseHardware\<close> returns is the status of
  \<^verbatim>\<open>TchFreeContext\<close>: the status of \<^verbatim>\<open>TchStopDevice\<close> is overwritten, and
  \<^verbatim>\<open>SpbTargetDeinitialize\<close> returns none.
\<close>

theorem OnReleaseHardware_returns_free_status:
  "fst (OnReleaseHardware ext d) = TchFreeContext ext (TouchContext d)"
  by (simp add: OnReleaseHardware_def Let_def)

text \<open>Stopping the device fails and freeing the context succeeds: success is returned.\<close>

theorem OnReleaseHardware_returns_free_status_witness:
  "\<not> NT_SUCCESS (TchStopDevice
       (sample_ext strict_retrieve_output_buffer STATUS_SUCCESS [] STATUS_UNSUCCESSFUL)
       (TouchContext (sample_dev False [])) (I2CContext (sample_dev False []))) \<and>
   fst (OnReleaseHardware
       (sample_ext strict_retrieve_output_buffer STATUS_SUCCESS [] STATUS_UNSUCCESSFUL)
       (sample_dev False [])) = STATUS_SUCCESS"
  using OnReleaseHardware_returns_free_status
    [of "sample_ext strict_retrieve_output_buffer STATUS_SUCCESS [] STATUS_UNSUCCESSFUL"
        "sample_dev False []"]
  by (simp add: sample_defs status_simps)

end
